theory Spec2Isabelle
  imports Main "HOL-Library.Multiset"
begin

section \<open>Strings\<close>

text \<open>
  Labels, folder names and messages are JavaScript strings; they are modelled as
  \<open>string\<close> (a list of 8-bit characters), which covers the ASCII names the scanned
  layouts use.
\<close>

definition is_digit :: "char \<Rightarrow> bool" where
  "is_digit c = (48 \<le> (of_char c :: nat) \<and> (of_char c :: nat) \<le> 57)"

definition digit_val :: "char \<Rightarrow> nat" where
  "digit_val c = (of_char c :: nat) - 48"

definition nat_of_digits :: "string \<Rightarrow> nat" where
  "nat_of_digits ds = foldl (\<lambda>n c. 10 * n + digit_val c) 0 ds"

text \<open>\<open>s.split(' ')[0]\<close>: the part of \<open>s\<close> before its first space (all of \<open>s\<close> when it has none).\<close>

definition split_space_0 :: "string \<Rightarrow> string" where
  "split_space_0 s = takeWhile (\<lambda>c. c \<noteq> CHR '' '') s"

section \<open>Version comparison\<close>

datatype run = Digits string | Text string

text \<open>The maximal runs of digits and of non-digits of a token, left to right.\<close>

fun runs :: "string \<Rightarrow> run list" where
  "runs [] = []"
| "runs (c # cs) =
     (if is_digit c
      then (case runs cs of Digits d # rs \<Rightarrow> Digits (c # d) # rs | rs \<Rightarrow> Digits [c] # rs)
      else (case runs cs of Text t # rs \<Rightarrow> Text (c # t) # rs | rs \<Rightarrow> Text [c] # rs))"

text \<open>Lexical comparison by character code: negative, zero or positive.\<close>

fun lex_cmp :: "string \<Rightarrow> string \<Rightarrow> int" where
  "lex_cmp [] [] = 0"
| "lex_cmp [] (b # bs) = - 1"
| "lex_cmp (a # as) [] = 1"
| "lex_cmp (a # as) (b # bs) =
     (if (of_char a :: nat) < of_char b then - 1
      else if (of_char b :: nat) < of_char a then 1
      else lex_cmp as bs)"

fun run_text :: "run \<Rightarrow> string" where
  "run_text (Digits d) = d"
| "run_text (Text t) = t"

text \<open>Two digit runs compare by integer value, any other pair of runs lexically.\<close>

fun cmp_run :: "run \<Rightarrow> run \<Rightarrow> int" where
  "cmp_run (Digits a) (Digits b) =
     (if nat_of_digits a < nat_of_digits b then - 1
      else if nat_of_digits b < nat_of_digits a then 1
      else 0)"
| "cmp_run r s = lex_cmp (run_text r) (run_text s)"

text \<open>Corresponding runs in turn; a strict prefix is less.\<close>

fun cmp_runs :: "run list \<Rightarrow> run list \<Rightarrow> int" where
  "cmp_runs [] [] = 0"
| "cmp_runs [] (s # ss) = - 1"
| "cmp_runs (r # rs) [] = 1"
| "cmp_runs (r # rs) (s # ss) =
     (let c = cmp_run r s in if c \<noteq> 0 then c else cmp_runs rs ss)"

text \<open>
  Modelled from the spec: \<open>String.prototype.localeCompare(that, undefined, {numeric: true})\<close>
  is the host runtime's collation and is not part of the sources. Section 4.2 of the
  specification describes the ordering it is used for: split each token into runs of
  digits and non-digits, compare corresponding runs, numeric runs by integer value,
  non-numeric runs lexically, and a strict prefix is less. \<open>localeCompare_numeric a b\<close>
  stands for \<open>a.localeCompare(b, undefined, {numeric: true})\<close>.
\<close>

definition localeCompare_numeric :: "string \<Rightarrow> string \<Rightarrow> int" where
  "localeCompare_numeric a b = cmp_runs (runs a) (runs b)"

text \<open>
  The version comparison of two labels: the leading token of each label
  (\<open>label.split(' ')[0]\<close>), compared numeric-aware.
\<close>

definition compare_labels :: "string \<Rightarrow> string \<Rightarrow> int" where
  "compare_labels labelA labelB =
     localeCompare_numeric (split_space_0 labelA) (split_space_0 labelB)"

section \<open>Arrays\<close>

text \<open>
  \<open>Array.prototype.sort(cmp)\<close> is a stable sort: with a consistent comparator its result
  is the one stable ordering of the elements, which insertion from the right computes.
\<close>

fun insert_sorted :: "('a \<Rightarrow> 'a \<Rightarrow> int) \<Rightarrow> 'a \<Rightarrow> 'a list \<Rightarrow> 'a list" where
  "insert_sorted cmp x [] = [x]"
| "insert_sorted cmp x (y # ys) =
     (if cmp x y \<le> 0 then x # y # ys else y # insert_sorted cmp x ys)"

definition array_sort :: "('a \<Rightarrow> 'a \<Rightarrow> int) \<Rightarrow> 'a list \<Rightarrow> 'a list" where
  "array_sort cmp xs = foldr (insert_sorted cmp) xs []"

section \<open>Keeping only the latest version\<close>

type_synonym path = "string list"

record version_item =
  label :: string
  path :: path

text \<open>The comparator of \<open>keepLatestVersion\<close>: descending by version.\<close>

definition version_cmp :: "version_item \<Rightarrow> version_item \<Rightarrow> int" where
  "version_cmp a b =
     (let versionA = split_space_0 (label a);
          versionB = split_space_0 (label b)
      in localeCompare_numeric versionB versionA)"

definition keepLatestVersion :: "version_item list \<Rightarrow> version_item list" where
  "keepLatestVersion versions =
     (if length versions \<le> 1 then []
      else let sortedVersions = array_sort version_cmp versions
           in drop 1 sortedVersions)"

text \<open>
  The same function over a store of arrays, where an array is the list at its address:
  \<open>[...versions]\<close> allocates a copy, \<open>sort\<close> orders the copy in place, \<open>slice(1)\<close>
  and the literal \<open>[]\<close> allocate the result. The function returns the new store and
  the address of the result.
\<close>

type_synonym array_store = "version_item list list"

definition alloc :: "array_store \<Rightarrow> version_item list \<Rightarrow> array_store \<times> nat" where
  "alloc h xs = (h @ [xs], length h)"

definition sort_in_place ::
  "(version_item \<Rightarrow> version_item \<Rightarrow> int) \<Rightarrow> array_store \<Rightarrow> nat \<Rightarrow> array_store" where
  "sort_in_place cmp h a = h[a := array_sort cmp (h ! a)]"

definition keepLatestVersion_store :: "array_store \<Rightarrow> nat \<Rightarrow> array_store \<times> nat" where
  "keepLatestVersion_store h versions =
     (if length (h ! versions) \<le> 1 then alloc h []
      else let (h1, sortedVersions) = alloc h (h ! versions);
               h2 = sort_in_place version_cmp h1 sortedVersions
           in alloc h2 (drop 1 (h2 ! sortedVersions)))"

section \<open>The file system\<close>

text \<open>
  The file system is a finite tree. \<open>File n\<close> is a regular file of \<open>n\<close> bytes, \<open>Dir\<close> a
  directory with its entries by name, \<open>Other\<close> anything \<open>fs.statSync\<close> reports as neither a
  regular file nor a directory (a socket, a FIFO, a device). A path is the list of names
  from the root, so \<open>path.join(folderPath, file)\<close> is \<open>folderPath @ [file]\<close>. A byte count
  is a natural number (the source's numbers are doubles, exact below \<open>2 ^ 53\<close>).
\<close>

datatype node = File nat | Dir "(string \<times> node) list" | Other

datatype js_error =
    ENOENT path
  | ENOTDIR path
  | EISDIR path
  | CommandFailed string
  | ParseFailure string
  | TypeError string

fun lookup :: "node \<Rightarrow> path \<Rightarrow> node option" where
  "lookup n [] = Some n"
| "lookup (Dir entries) (name # rest) =
     (case map_of entries name of None \<Rightarrow> None | Some child \<Rightarrow> lookup child rest)"
| "lookup n (name # rest) = None"

definition existsSync :: "node \<Rightarrow> path \<Rightarrow> bool" where
  "existsSync fs p = (lookup fs p \<noteq> None)"

definition readdirSync :: "node \<Rightarrow> path \<Rightarrow> js_error + string list" where
  "readdirSync fs p =
     (case lookup fs p of
        None \<Rightarrow> Inl (ENOENT p)
      | Some (Dir entries) \<Rightarrow> Inr (map fst entries)
      | Some n \<Rightarrow> Inl (ENOTDIR p))"

definition statSync :: "node \<Rightarrow> path \<Rightarrow> js_error + node" where
  "statSync fs p = (case lookup fs p of None \<Rightarrow> Inl (ENOENT p) | Some n \<Rightarrow> Inr n)"

fun isFile :: "node \<Rightarrow> bool" where
  "isFile (File n) = True"
| "isFile n = False"

fun isDirectory :: "node \<Rightarrow> bool" where
  "isDirectory (Dir entries) = True"
| "isDirectory n = False"

fun stat_size :: "node \<Rightarrow> nat" where
  "stat_size (File n) = n"
| "stat_size n = 0"

text \<open>The number of directories of a tree: the measure of the recursion of \<open>getFolderSize\<close>.\<close>

fun weight :: "node \<Rightarrow> nat" where
  "weight (Dir entries) = Suc (sum_list (map (\<lambda>(name, child). weight child) entries))"
| "weight n = 0"

definition weight_at :: "node \<Rightarrow> path \<Rightarrow> nat" where
  "weight_at fs p = (case lookup fs p of None \<Rightarrow> 0 | Some n \<Rightarrow> weight n)"

lemma weight_child: "map_of entries name = Some child \<Longrightarrow> weight child < weight (Dir entries)"
proof (induction entries)
  case Nil
  then show ?case by simp
next
  case (Cons e entries)
  then show ?case by (cases e) (auto split: if_splits)
qed

lemma lookup_snoc:
  "lookup fs (p @ [name]) =
     (case lookup fs p of
        Some (Dir entries) \<Rightarrow> map_of entries name
      | _ \<Rightarrow> None)"
proof (induction fs p rule: lookup.induct)
  case (1 n)
  then show ?case by (cases n) (auto split: option.splits)
next
  case (2 entries name' rest)
  then show ?case by (auto split: option.splits)
qed simp_all

lemma weight_at_child:
  "lookup fs (p @ [name]) = Some child \<Longrightarrow> weight_at fs (p @ [name]) < weight_at fs p"
  by (auto simp: weight_at_def lookup_snoc split: option.splits node.splits dest: weight_child)

text \<open>
  \<open>getFolderSize\<close> with its \<open>for\<close> loop over \<open>files\<close>; \<open>size'\<close> is the running total. An
  exception of \<open>readdirSync\<close> or \<open>statSync\<close> leaves the function as \<open>Inl\<close>.
\<close>

function getFolderSize :: "node \<Rightarrow> path \<Rightarrow> js_error + nat"
  and getFolderSize_loop :: "node \<Rightarrow> path \<Rightarrow> string list \<Rightarrow> nat \<Rightarrow> js_error + nat" where
  "getFolderSize fs folderPath =
     (if existsSync fs folderPath
      then (case readdirSync fs folderPath of
              Inl e \<Rightarrow> Inl e
            | Inr files \<Rightarrow> getFolderSize_loop fs folderPath files 0)
      else Inr 0)"
| "getFolderSize_loop fs folderPath [] size' = Inr size'"
| "getFolderSize_loop fs folderPath (file # files) size' =
     (let filePath = folderPath @ [file] in
      case statSync fs filePath of
        Inl e \<Rightarrow> Inl e
      | Inr stat \<Rightarrow>
          if isFile stat then getFolderSize_loop fs folderPath files (size' + stat_size stat)
          else if isDirectory stat then
            (case getFolderSize fs filePath of
               Inl e \<Rightarrow> Inl e
             | Inr s \<Rightarrow> getFolderSize_loop fs folderPath files (size' + s))
          else getFolderSize_loop fs folderPath files size')"
  by pat_completeness auto
termination
proof (relation "inv_image (less_than <*lex*> less_than <*lex*> less_than)
    (\<lambda>x. case x of
       Inl (fs, p) \<Rightarrow> (weight_at fs p, 1::nat, 0::nat)
     | Inr (fs, p, files, size') \<Rightarrow> (weight_at fs p, 0, length files))", goal_cases)
  case 1
  then show ?case by (intro wf_inv_image wf_lex_prod wf_less_than)
next
  case 2
  then show ?case by simp
next
  case 3
  then show ?case by simp
next
  case 4
  then show ?case
    by (auto simp: statSync_def split: option.splits dest: weight_at_child)
next
  case 5
  then show ?case by simp
next
  case 6
  then show ?case by simp
qed

declare getFolderSize.simps [simp del]

text \<open>
  The regular files under a tree, each with its path from the tree's root and its size,
  and the sum of their sizes.
\<close>

fun files_under :: "node \<Rightarrow> (path \<times> nat) list" where
  "files_under (File n) = [([], n)]"
| "files_under (Dir entries) =
     concat (map (\<lambda>(name, child). map (\<lambda>(p, n). (name # p, n)) (files_under child)) entries)"
| "files_under Other = []"

definition total_file_bytes :: "node \<Rightarrow> nat" where
  "total_file_bytes t = sum_list (map snd (files_under t))"

text \<open>A well-formed tree: no directory has two entries of the same name.\<close>

fun wf_node :: "node \<Rightarrow> bool" where
  "wf_node (Dir entries) =
     (distinct (map fst entries) \<and> list_all (\<lambda>(name, child). wf_node child) entries)"
| "wf_node n = True"

section \<open>Formatting and parsing sizes\<close>

definition digit_char :: "nat \<Rightarrow> char" where
  "digit_char d = ''0123456789'' ! d"

text \<open>The decimal digits of a non-negative integer, as \<open>String(n)\<close> prints them.\<close>

fun show_nat :: "nat \<Rightarrow> string" where
  "show_nat n =
     (if n < 10 then [digit_char n] else show_nat (n div 10) @ [digit_char (n mod 10)])"

declare show_nat.simps [simp del]

text \<open>
  \<open>Math.floor(Math.log(bytes) / Math.log(k))\<close> for \<open>k = 1024\<close>, computed exactly. The
  source computes it in double arithmetic, which agrees with the exact value wherever
  \<open>bytes\<close> is not within rounding distance of a power of 1024; just below \<open>1024 ^ 5\<close> it
  does not (see \<open>formatBytes_on\<close>). The commands below format sizes far from such a
  count.
\<close>

fun floor_log_k :: "nat \<Rightarrow> nat" where
  "floor_log_k bytes = (if bytes < 1024 then 0 else Suc (floor_log_k (bytes div 1024)))"

declare floor_log_k.simps [simp del]

text \<open>
  \<open>(bytes / Math.pow(k, i)).toFixed(2)\<close> as a number of hundredths: the quotient is exact
  in double arithmetic (a division by a power of two), and \<open>toFixed\<close> rounds it to the
  nearest hundredth, a tie upwards.
\<close>

definition toFixed2 :: "nat \<Rightarrow> nat \<Rightarrow> nat" where
  "toFixed2 bytes i = (200 * bytes + 1024 ^ i) div (2 * 1024 ^ i)"

text \<open>
  \<open>parseFloat\<close> of that text, converted back to a string by \<open>+\<close>: the integer part, and
  the decimals without trailing zeros.
\<close>

definition show_hundredths :: "nat \<Rightarrow> string" where
  "show_hundredths h =
     show_nat (h div 100) @
     (if h mod 100 = 0 then []
      else if h mod 10 = 0 then ''.'' @ [digit_char (h mod 100 div 10)]
      else ''.'' @ [digit_char (h mod 100 div 10), digit_char (h mod 10)])"

definition sizes :: "string list" where
  "sizes = [''Bytes'', ''KB'', ''MB'', ''GB'', ''TB'']"

definition formatBytes :: "nat \<Rightarrow> string" where
  "formatBytes bytes =
     (if bytes = 0 then ''0 Bytes''
      else let i = floor_log_k bytes
           in show_hundredths (toFixed2 bytes i) @ '' '' @
              (if i < length sizes then sizes ! i else ''undefined''))"

text \<open>
  The double arithmetic of the host, as far as the unit index uses it: \<open>Math.log\<close> of a
  byte count, the division of two doubles, and \<open>Math.floor\<close> of the quotient (which is
  not negative for a count of 1 or more). \<open>'d\<close> is the type of doubles. The other
  operations of \<open>formatBytes\<close> are exact for a count below \<open>2 ^ 53\<close>: the division by a
  power of two, and \<open>toFixed\<close>.
\<close>

record 'd host_math =
  Math_log :: "nat \<Rightarrow> 'd"
  double_div :: "'d \<Rightarrow> 'd \<Rightarrow> 'd"
  Math_floor :: "'d \<Rightarrow> nat"

definition unit_index :: "'d host_math \<Rightarrow> nat \<Rightarrow> nat" where
  "unit_index m bytes = Math_floor m (double_div m (Math_log m bytes) (Math_log m 1024))"

text \<open>\<open>formatBytes\<close> on a host: the function above, with the index as the host computes it.\<close>

definition formatBytes_on :: "'d host_math \<Rightarrow> nat \<Rightarrow> string" where
  "formatBytes_on m bytes =
     (if bytes = 0 then ''0 Bytes''
      else let i = unit_index m bytes
           in show_hundredths (toFixed2 bytes i) @ '' '' @
              (if i < length sizes then sizes ! i else ''undefined''))"

text \<open>\<open>s.split(': ')\<close>; \<open>acc\<close> holds the current piece, reversed.\<close>

fun split_colon_space :: "string \<Rightarrow> string \<Rightarrow> string list" where
  "split_colon_space acc [] = [rev acc]"
| "split_colon_space acc [c] = [rev (c # acc)]"
| "split_colon_space acc (c # d # cs) =
     (if c = CHR '':'' \<and> d = CHR '' '' then rev acc # split_colon_space [] cs
      else split_colon_space (c # acc) (d # cs))"

text \<open>
  \<open>parseInt\<close> on the second piece of a description: the leading decimal digits, or
  \<open>None\<close> for \<open>NaN\<close> (no second piece, or no leading digit). The sign, the white space
  and the \<open>0x\<close> prefix that \<open>parseInt\<close> also reads do not occur in a formatted size.
\<close>

definition parseInt :: "string option \<Rightarrow> nat option" where
  "parseInt s =
     (case s of
        None \<Rightarrow> None
      | Some t \<Rightarrow>
          let ds = takeWhile is_digit t
          in if ds = [] then None else Some (nat_of_digits ds))"

definition split_1 :: "string \<Rightarrow> string option" where
  "split_1 s = (let parts = split_colon_space [] s
                in if 1 < length parts then Some (parts ! 1) else None)"

text \<open>
  The comparator \<open>sizeB - sizeA\<close> of the "Sort by size" steps, on the two texts that carry
  the formatted size; a \<open>NaN\<close> difference counts as 0 in \<open>sort\<close>.
\<close>

definition size_cmp :: "string \<Rightarrow> string \<Rightarrow> int" where
  "size_cmp textA textB =
     (let sizeA = parseInt (split_1 textA);
          sizeB = parseInt (split_1 textB)
      in case (sizeA, sizeB) of
           (Some a, Some b) \<Rightarrow> int b - int a
         | _ \<Rightarrow> 0)"

section \<open>The host\<close>

text \<open>
  The parsed manifest, as \<open>xml2js\<close> returns it: \<open>result.assets\<close> and
  \<open>result.assets.asset\<close> may be missing, and an asset element carries its attributes
  under \<open>$\<close>, or nothing when it has none.
\<close>

type_synonym xml_asset = "(string \<times> string) list option"

record xml_assets =
  asset :: "xml_asset list option"

record xml_result =
  assets :: "xml_assets option"

datatype message =
    InformationMessage string
  | WarningMessage string
  | ErrorMessage string

text \<open>
  What a command can see and change: the file system, \<open>process.platform\<close>, the
  environment variables that the commands read, the outcome of \<open>xml2js.parseString\<close> on the content of
  the manifest file (\<open>Inl\<close> the parser's message when the content is not well-formed),
  the paths on which the shell's recursive removal fails, and the messages shown so far.
\<close>

record world =
  filesystem :: node
  platform :: string
  HOME :: path
  LOCALAPPDATA :: path
  ProgramFiles :: path
  xml_parse :: "string + xml_result"
  rm_fails :: "path list"
  messages :: "message list"

definition showInformationMessage :: "world \<Rightarrow> string \<Rightarrow> world" where
  "showInformationMessage w text = w\<lparr>messages := messages w @ [InformationMessage text]\<rparr>"

definition showErrorMessage :: "world \<Rightarrow> string \<Rightarrow> world" where
  "showErrorMessage w text = w\<lparr>messages := messages w @ [ErrorMessage text]\<rparr>"

text \<open>\<open>error.message\<close>.\<close>

fun error_message :: "js_error \<Rightarrow> string" where
  "error_message (ENOENT p) = ''ENOENT: no such file or directory''"
| "error_message (ENOTDIR p) = ''ENOTDIR: not a directory''"
| "error_message (EISDIR p) = ''EISDIR: illegal operation on a directory''"
| "error_message (CommandFailed m) = m"
| "error_message (ParseFailure m) = m"
| "error_message (TypeError m) = m"

text \<open>The tree without the subtree at a path.\<close>

fun remove_tree :: "node \<Rightarrow> path \<Rightarrow> node" where
  "remove_tree (Dir entries) [name] = Dir (filter (\<lambda>(n, child). n \<noteq> name) entries)"
| "remove_tree (Dir entries) (name # rest) =
     Dir (map (\<lambda>(n, child). if n = name then (n, remove_tree child rest) else (n, child)) entries)"
| "remove_tree n p = n"

text \<open>
  \<open>deleteFolderRecursive\<close>: the shell command (\<open>rm -rf\<close>, or \<open>rmdir /s /q\<close> on Windows)
  removes the subtree, or fails and rejects the promise; a failed command is taken to
  leave the tree as it was.
\<close>

definition deleteFolderRecursive :: "world \<Rightarrow> path \<Rightarrow> js_error + world" where
  "deleteFolderRecursive w folderPath =
     (if existsSync (filesystem w) folderPath
      then (if folderPath \<in> set (rm_fails w)
            then Inl (CommandFailed ''Command failed'')
            else Inr (w\<lparr>filesystem := remove_tree (filesystem w) folderPath\<rparr>))
      else Inr w)"

section \<open>Removal loops\<close>

text \<open>
  The removal loop of the interactive commands: each item in its own \<open>try\<close>, the
  \<open>catch\<close> shows an error message (\<open>describe item\<close> is its text before
  \<open>error.message\<close>) and the loop goes on.
\<close>

fun remove_selected ::
  "('a version_item_scheme \<Rightarrow> string) \<Rightarrow> 'a version_item_scheme list \<Rightarrow> world \<Rightarrow> nat \<Rightarrow> nat
   \<Rightarrow> world \<times> nat \<times> nat" where
  "remove_selected describe [] w removedCount totalSize = (w, removedCount, totalSize)"
| "remove_selected describe (item # items) w removedCount totalSize =
     (case getFolderSize (filesystem w) (path item) of
        Inl error \<Rightarrow>
          remove_selected describe items
            (showErrorMessage w (describe item @ error_message error)) removedCount totalSize
      | Inr size' \<Rightarrow>
          (case deleteFolderRecursive w (path item) of
             Inl error \<Rightarrow>
               remove_selected describe items
                 (showErrorMessage w (describe item @ error_message error)) removedCount totalSize
           | Inr w' \<Rightarrow>
               remove_selected describe items w' (removedCount + 1) (totalSize + size')))"

text \<open>
  The removal loop of the keep-latest-only sweep: no \<open>try\<close> inside the loop, so an
  exception leaves the loop, here with the world as it was when it was thrown.
\<close>

fun remove_versions ::
  "'a version_item_scheme list \<Rightarrow> world \<Rightarrow> nat \<Rightarrow> nat
   \<Rightarrow> (js_error \<times> world) + (world \<times> nat \<times> nat)" where
  "remove_versions [] w totalSize removedCount = Inr (w, totalSize, removedCount)"
| "remove_versions (version # versionsToRemove) w totalSize removedCount =
     (case getFolderSize (filesystem w) (path version) of
        Inl error \<Rightarrow> Inl (error, w)
      | Inr size' \<Rightarrow>
          (case deleteFolderRecursive w (path version) of
             Inl error \<Rightarrow> Inl (error, w)
           | Inr w' \<Rightarrow>
               remove_versions versionsToRemove w' (totalSize + size') (removedCount + 1)))"

section \<open>Scanning\<close>

text \<open>\<open>names.filter(name => fs.statSync(path.join(dir, name)).isDirectory())\<close>.\<close>

fun filter_isDirectory :: "node \<Rightarrow> path \<Rightarrow> string list \<Rightarrow> js_error + string list" where
  "filter_isDirectory t dir [] = Inr []"
| "filter_isDirectory t dir (name # names) =
     (case statSync t (dir @ [name]) of
        Inl error \<Rightarrow> Inl error
      | Inr stat \<Rightarrow>
          (case filter_isDirectory t dir names of
             Inl error \<Rightarrow> Inl error
           | Inr folders \<Rightarrow> Inr (if isDirectory stat then name # folders else folders)))"

record folder_item = version_item +
  description :: string

text \<open>The items of the device-support picker, before sorting.\<close>

fun map_folder_item :: "node \<Rightarrow> path \<Rightarrow> string list \<Rightarrow> js_error + folder_item list" where
  "map_folder_item t dir [] = Inr []"
| "map_folder_item t dir (folder # folders) =
     (let folderPath = dir @ [folder] in
      case getFolderSize t folderPath of
        Inl error \<Rightarrow> Inl error
      | Inr size' \<Rightarrow>
          (case map_folder_item t dir folders of
             Inl error \<Rightarrow> Inl error
           | Inr items \<Rightarrow>
               Inr (\<lparr>label = folder, path = folderPath,
                     description = ''Size: '' @ formatBytes size'\<rparr> # items)))"

definition endsWith :: "string \<Rightarrow> string \<Rightarrow> bool" where
  "endsWith s suffix =
     (length suffix \<le> length s \<and> drop (length s - length suffix) s = suffix)"

text \<open>\<open>s.replace(pattern, '')\<close> with a string pattern: the first occurrence is removed.\<close>

fun replace_first :: "string \<Rightarrow> string \<Rightarrow> string" where
  "replace_first pattern [] = []"
| "replace_first pattern (c # cs) =
     (if take (length pattern) (c # cs) = pattern then drop (length pattern) (c # cs)
      else c # replace_first pattern cs)"

text \<open>
  The \<open>forEach\<close> over the manifest's asset elements; \<open>usedRuntimes\<close> is the set built so
  far, as a list (an element without \<open>assetId\<close> adds \<open>undefined\<close>, here \<open>None\<close>). Reading
  \<open>state\<close> of an element without attributes throws.
\<close>

fun add_installed :: "xml_asset list \<Rightarrow> string option list \<Rightarrow> js_error + string option list" where
  "add_installed [] usedRuntimes = Inr usedRuntimes"
| "add_installed (a # rest) usedRuntimes =
     (case a of
        None \<Rightarrow> Inl (TypeError ''Cannot read properties of undefined'')
      | Some attrs \<Rightarrow>
          add_installed rest
            (if map_of attrs ''state'' = Some ''installed''
             then usedRuntimes @ [map_of attrs ''assetId'']
             else usedRuntimes))"

definition usedRuntimes_of :: "xml_result \<Rightarrow> js_error + string option list" where
  "usedRuntimes_of result =
     (case assets result of
        None \<Rightarrow> Inr []
      | Some a \<Rightarrow>
          (case asset a of
             None \<Rightarrow> Inr []
           | Some elements \<Rightarrow> add_installed elements []))"

text \<open>\<open>fs.readFileSync(xmlPath, 'utf8')\<close> followed by \<open>parseString\<close>.\<close>

definition read_and_parse :: "world \<Rightarrow> path \<Rightarrow> js_error + xml_result" where
  "read_and_parse w p =
     (case lookup (filesystem w) p of
        None \<Rightarrow> Inl (ENOENT p)
      | Some (File n) \<Rightarrow>
          (case xml_parse w of Inl m \<Rightarrow> Inl (ParseFailure m) | Inr result \<Rightarrow> Inr result)
      | Some n \<Rightarrow> Inl (EISDIR p))"

section \<open>The iOS Device Support cleaner\<close>

definition deviceSupportPath :: "world \<Rightarrow> path" where
  "deviceSupportPath w = HOME w @ [''Library'', ''Developer'', ''Xcode'', ''iOS DeviceSupport'']"

text \<open>The "Sort by size" step on the items of a picker.\<close>

definition sort_by_size :: "'a folder_item_scheme list \<Rightarrow> 'a folder_item_scheme list" where
  "sort_by_size items = array_sort (\<lambda>a b. size_cmp (description a) (description b)) items"

text \<open>The list that the device-support picker presents, for the folders found.\<close>

definition deviceSupport_items :: "world \<Rightarrow> string list \<Rightarrow> js_error + folder_item list" where
  "deviceSupport_items w deviceSupportFolders =
     (case map_folder_item (filesystem w) (deviceSupportPath w) deviceSupportFolders of
        Inl error \<Rightarrow> Inl error
      | Inr items \<Rightarrow> Inr (sort_by_size items))"

text \<open>
  The body of the command's \<open>try\<close>. \<open>pick\<close> is the user's answer to
  \<open>showQuickPick\<close>: the chosen items, or \<open>None\<close> when the picker is dismissed.
\<close>

definition cleanIosDeviceSupport_try ::
  "(folder_item list \<Rightarrow> folder_item list option) \<Rightarrow> world \<Rightarrow> js_error + world" where
  "cleanIosDeviceSupport_try pick w =
     (if \<not> existsSync (filesystem w) (deviceSupportPath w)
      then Inr (showInformationMessage w ''No iOS Device Support folders found'')
      else
        case readdirSync (filesystem w) (deviceSupportPath w) of
          Inl error \<Rightarrow> Inl error
        | Inr names \<Rightarrow>
        case filter_isDirectory (filesystem w) (deviceSupportPath w) names of
          Inl error \<Rightarrow> Inl error
        | Inr deviceSupportFolders \<Rightarrow>
        if length deviceSupportFolders = 0
        then Inr (showInformationMessage w ''No iOS Device Support folders found'')
        else
          case deviceSupport_items w deviceSupportFolders of
            Inl error \<Rightarrow> Inl error
          | Inr items \<Rightarrow>
          case pick items of
            None \<Rightarrow> Inr w
          | Some selectedFolders \<Rightarrow>
          if length selectedFolders = 0 then Inr w
          else
            let (w', removedCount, totalSize) =
                  remove_selected (\<lambda>folder. ''Error removing '' @ label folder @ '': '')
                    selectedFolders w 0 0
            in Inr (showInformationMessage w'
                  (''Removed '' @ show_nat removedCount @
                   '' iOS Device Support folders, freeing '' @ formatBytes totalSize)))"

definition cleanIosDeviceSupport ::
  "(folder_item list \<Rightarrow> folder_item list option) \<Rightarrow> world \<Rightarrow> world" where
  "cleanIosDeviceSupport pick w =
     (if platform w \<noteq> ''darwin''
      then showInformationMessage w ''This command is only available on macOS''
      else
        case cleanIosDeviceSupport_try pick w of
          Inl error \<Rightarrow>
            showErrorMessage w (''Error cleaning iOS Device Support: '' @ error_message error)
        | Inr w' \<Rightarrow> w')"

section \<open>The iOS Simulator Runtime cleaner\<close>

definition runtimePath :: path where
  "runtimePath =
     [''System'', ''Library'', ''AssetsV2'', ''com_apple_MobileAsset_iOSSimulatorRuntime'']"

definition xmlPath :: path where
  "xmlPath = runtimePath @ [''com_apple_MobileAsset_iOSSimulatorRuntime.xml'']"

record asset_item = version_item +
  isUsed :: bool

record runtime_item = folder_item +
  detail :: string
  isUsed :: bool

text \<open>The asset folders \<open>{name, path, size}\<close> of the interactive command, as triples.\<close>

fun map_asset_folder :: "node \<Rightarrow> string list \<Rightarrow> js_error + (string \<times> path \<times> nat) list" where
  "map_asset_folder t [] = Inr []"
| "map_asset_folder t (folder # folders) =
     (let folderPath = runtimePath @ [folder] in
      case getFolderSize t folderPath of
        Inl error \<Rightarrow> Inl error
      | Inr size' \<Rightarrow>
          (case map_asset_folder t folders of
             Inl error \<Rightarrow> Inl error
           | Inr assetFolders \<Rightarrow> Inr ((folder, folderPath, size') # assetFolders)))"

definition runtime_item_of :: "string option list \<Rightarrow> string \<times> path \<times> nat \<Rightarrow> runtime_item" where
  "runtime_item_of usedRuntimes folder =
     (case folder of (name, folderPath, size') \<Rightarrow>
        let isUsed = (Some (replace_first ''.asset'' name) \<in> set usedRuntimes)
        in \<lparr>label = name, path = folderPath,
            description = (if isUsed then ''Currently in use'' else ''Not in use''),
            detail = ''Size: '' @ formatBytes size',
            isUsed = isUsed\<rparr>)"

text \<open>The "Sort by usage status and size" comparator.\<close>

definition usage_size_cmp :: "runtime_item \<Rightarrow> runtime_item \<Rightarrow> int" where
  "usage_size_cmp a b =
     (if isUsed a \<noteq> isUsed b then (if isUsed a then 1 else - 1)
      else size_cmp (detail a) (detail b))"

text \<open>The list that the simulator-runtime picker presents.\<close>

definition runtime_items ::
  "string option list \<Rightarrow> (string \<times> path \<times> nat) list \<Rightarrow> runtime_item list" where
  "runtime_items usedRuntimes assetFolders =
     array_sort usage_size_cmp (map (runtime_item_of usedRuntimes) assetFolders)"

text \<open>
  The body of the command's \<open>try\<close>. \<open>confirm\<close> is the user's answer to the modal
  warning: the button chosen, or \<open>None\<close>.
\<close>

definition cleanIosSimulatorRuntime_try ::
  "(runtime_item list \<Rightarrow> runtime_item list option) \<Rightarrow> (string \<Rightarrow> string option) \<Rightarrow> world
   \<Rightarrow> js_error + world" where
  "cleanIosSimulatorRuntime_try pick confirm w =
     (if \<not> existsSync (filesystem w) xmlPath
      then Inr (showErrorMessage w ''iOS Simulator Runtime XML file not found'')
      else
        case read_and_parse w xmlPath of
          Inl error \<Rightarrow> Inl error
        | Inr result \<Rightarrow>
        case readdirSync (filesystem w) runtimePath of
          Inl error \<Rightarrow> Inl error
        | Inr names \<Rightarrow>
        case map_asset_folder (filesystem w) (filter (\<lambda>item. endsWith item ''.asset'') names) of
          Inl error \<Rightarrow> Inl error
        | Inr assetFolders \<Rightarrow>
        if length assetFolders = 0
        then Inr (showInformationMessage w ''No iOS Simulator Runtime assets found'')
        else
          case usedRuntimes_of result of
            Inl error \<Rightarrow> Inl error
          | Inr usedRuntimes \<Rightarrow>
          let items = runtime_items usedRuntimes assetFolders in
          case pick items of
            None \<Rightarrow> Inr w
          | Some selectedItems \<Rightarrow>
          if length selectedItems = 0 then Inr w
          else
            let inUseItems = filter isUsed selectedItems in
            if length inUseItems > 0 \<and>
               confirm (''You are about to remove '' @ show_nat (length inUseItems) @
                   '' in-use runtime(s). This might affect your ability to run iOS simulators. Continue?'')
                 \<noteq> Some ''Yes''
            then Inr w
            else
              let (w', removedCount, totalSize) =
                    remove_selected (\<lambda>item. ''Error removing '' @ label item @ '': '')
                      selectedItems w 0 0
              in Inr (showInformationMessage w'
                    (''Removed '' @ show_nat removedCount @
                     '' iOS Simulator Runtime assets, freeing '' @ formatBytes totalSize)))"

definition cleanIosSimulatorRuntime ::
  "(runtime_item list \<Rightarrow> runtime_item list option) \<Rightarrow> (string \<Rightarrow> string option) \<Rightarrow> world
   \<Rightarrow> world" where
  "cleanIosSimulatorRuntime pick confirm w =
     (if platform w \<noteq> ''darwin''
      then showInformationMessage w ''This command is only available on macOS''
      else
        case cleanIosSimulatorRuntime_try pick confirm w of
          Inl error \<Rightarrow>
            showErrorMessage w (''Error cleaning iOS Simulator Runtime: '' @ error_message error)
        | Inr w' \<Rightarrow> w')"

section \<open>The keep-latest-only sweep\<close>

type_synonym sweep_state = "world \<times> nat \<times> nat"

text \<open>
  The step that the sweep applies to the device-support folder, to each component of the
  Android SDK and to each pack: list the subdirectories of \<open>root\<close> as versions, keep the
  latest, remove the others. The state is the world, \<open>totalSize\<close> and \<open>removedCount\<close>.
\<close>

definition sweep_versions :: "path \<Rightarrow> sweep_state \<Rightarrow> (js_error \<times> world) + sweep_state" where
  "sweep_versions root st =
     (case st of (w, totalSize, removedCount) \<Rightarrow>
        case readdirSync (filesystem w) root of
          Inl error \<Rightarrow> Inl (error, w)
        | Inr names \<Rightarrow>
        case filter_isDirectory (filesystem w) root names of
          Inl error \<Rightarrow> Inl (error, w)
        | Inr folders \<Rightarrow>
          let versions = map (\<lambda>folder. \<lparr>label = folder, path = root @ [folder]\<rparr>) folders;
              versionsToRemove = keepLatestVersion versions
          in remove_versions versionsToRemove w totalSize removedCount)"

text \<open>The loop over the components of the Android SDK.\<close>

fun sweep_components :: "path \<Rightarrow> string list \<Rightarrow> sweep_state \<Rightarrow> (js_error \<times> world) + sweep_state" where
  "sweep_components sdkRoot [] st = Inr st"
| "sweep_components sdkRoot (component # components) st =
     (let componentPath = sdkRoot @ [component] in
      if existsSync (filesystem (fst st)) componentPath
      then (case sweep_versions componentPath st of
              Inl thrown \<Rightarrow> Inl thrown
            | Inr st' \<Rightarrow> sweep_components sdkRoot components st')
      else sweep_components sdkRoot components st)"

text \<open>The loop over the packs.\<close>

fun sweep_packs :: "path \<Rightarrow> string list \<Rightarrow> sweep_state \<Rightarrow> (js_error \<times> world) + sweep_state" where
  "sweep_packs packsPath [] st = Inr st"
| "sweep_packs packsPath (pack # packs) st =
     (case sweep_versions (packsPath @ [pack]) st of
        Inl thrown \<Rightarrow> Inl thrown
      | Inr st' \<Rightarrow> sweep_packs packsPath packs st')"

definition sweep_deviceSupport :: "sweep_state \<Rightarrow> (js_error \<times> world) + sweep_state" where
  "sweep_deviceSupport st =
     (let w = fst st in
      if platform w = ''darwin'' \<and> existsSync (filesystem w) (deviceSupportPath w)
      then sweep_versions (deviceSupportPath w) st
      else Inr st)"

definition sweep_androidSdk :: "sweep_state \<Rightarrow> (js_error \<times> world) + sweep_state" where
  "sweep_androidSdk st =
     (let w = fst st;
          sdkRoot = (if platform w = ''win32''
                     then LOCALAPPDATA w @ [''Android'', ''android-sdk'']
                     else HOME w @ [''Library'', ''Developer'', ''Xamarin'', ''android-sdk-macosx''])
      in if existsSync (filesystem w) sdkRoot
         then sweep_components sdkRoot [''platforms'', ''system-images'', ''build-tools''] st
         else Inr st)"

definition sweep_dotnetPacks :: "sweep_state \<Rightarrow> (js_error \<times> world) + sweep_state" where
  "sweep_dotnetPacks st =
     (let w = fst st;
          packsPath = (if platform w = ''win32''
                       then ProgramFiles w @ [''dotnet'', ''packs'']
                       else [''usr'', ''local'', ''share'', ''dotnet'', ''packs''])
      in if existsSync (filesystem w) packsPath
         then (case readdirSync (filesystem w) packsPath of
                 Inl error \<Rightarrow> Inl (error, w)
               | Inr names \<Rightarrow>
                 case filter_isDirectory (filesystem w) packsPath names of
                   Inl error \<Rightarrow> Inl (error, w)
                 | Inr packs \<Rightarrow> sweep_packs packsPath packs st)
         else Inr st)"

text \<open>The asset folders \<open>{label, path, isUsed}\<close> of the sweep.\<close>

definition sweep_assetFolders :: "string option list \<Rightarrow> string list \<Rightarrow> asset_item list" where
  "sweep_assetFolders usedRuntimes names =
     map (\<lambda>folder. \<lparr>label = folder, path = runtimePath @ [folder],
                     asset_item.isUsed = (Some (replace_first ''.asset'' folder) \<in> set usedRuntimes)\<rparr>)
       (filter (\<lambda>item. endsWith item ''.asset'') names)"

definition sweep_simulatorRuntime :: "sweep_state \<Rightarrow> (js_error \<times> world) + sweep_state" where
  "sweep_simulatorRuntime st =
     (case st of (w, totalSize, removedCount) \<Rightarrow>
        if platform w = ''darwin'' \<and> existsSync (filesystem w) runtimePath
           \<and> existsSync (filesystem w) xmlPath
        then
          case read_and_parse w xmlPath of
            Inl error \<Rightarrow> Inl (error, w)
          | Inr result \<Rightarrow>
          case usedRuntimes_of result of
            Inl error \<Rightarrow> Inl (error, w)
          | Inr usedRuntimes \<Rightarrow>
          case readdirSync (filesystem w) runtimePath of
            Inl error \<Rightarrow> Inl (error, w)
          | Inr names \<Rightarrow>
            let assetFolders = sweep_assetFolders usedRuntimes names;
                versionsToRemove = filter (\<lambda>asset. \<not> asset_item.isUsed asset) assetFolders
            in remove_versions versionsToRemove w totalSize removedCount
        else Inr st)"

definition cleanAllExceptLatest_try :: "world \<Rightarrow> (js_error \<times> world) + sweep_state" where
  "cleanAllExceptLatest_try w =
     (case sweep_deviceSupport (w, 0, 0) of
        Inl thrown \<Rightarrow> Inl thrown
      | Inr st1 \<Rightarrow>
     (case sweep_androidSdk st1 of
        Inl thrown \<Rightarrow> Inl thrown
      | Inr st2 \<Rightarrow>
     (case sweep_dotnetPacks st2 of
        Inl thrown \<Rightarrow> Inl thrown
      | Inr st3 \<Rightarrow> sweep_simulatorRuntime st3)))"

definition cleanAllExceptLatest :: "world \<Rightarrow> world" where
  "cleanAllExceptLatest w =
     (case cleanAllExceptLatest_try w of
        Inl (error, w') \<Rightarrow>
          showErrorMessage w'
            (''Error cleaning all except latest versions: '' @ error_message error)
      | Inr (w', totalSize, removedCount) \<Rightarrow>
          showInformationMessage w'
            (''Removed '' @ show_nat removedCount @ '' items, freeing '' @ formatBytes totalSize @
             ''. Kept only the latest versions.''))"

section \<open>Example inputs\<close>

text \<open>A tree with one directory at a path, and a macOS world around a tree.\<close>

fun dir_at :: "path \<Rightarrow> node \<Rightarrow> node" where
  "dir_at [] n = n"
| "dir_at (name # rest) n = Dir [(name, dir_at rest n)]"

definition mac :: "node \<Rightarrow> path list \<Rightarrow> world" where
  "mac t failing =
     \<lparr>filesystem = t, platform = ''darwin'', HOME = [''Users'', ''dev''],
      LOCALAPPDATA = [], ProgramFiles = [], xml_parse = Inl ''Unexpected end'',
      rm_fails = failing, messages = []\<rparr>"

definition two_device_folders :: world where
  "two_device_folders =
     mac (dir_at [''Users'', ''dev'', ''Library'', ''Developer'', ''Xcode'', ''iOS DeviceSupport'']
           (Dir [(''16.4'', Dir [(''Symbols'', File 3221225472)]),
                 (''17.0'', Dir [(''Symbols'', File 5120)])])) []"

definition three_device_folders :: world where
  "three_device_folders =
     mac (dir_at [''Users'', ''dev'', ''Library'', ''Developer'', ''Xcode'', ''iOS DeviceSupport'']
           (Dir [(''15.0'', Dir [(''Symbols'', File 300)]),
                 (''16.0'', Dir [(''Symbols'', File 200)]),
                 (''17.0'', Dir [(''Symbols'', File 100)])]))
         [[''Users'', ''dev'', ''Library'', ''Developer'', ''Xcode'', ''iOS DeviceSupport'', ''16.0'']]"

definition manifest_A :: xml_result where
  "manifest_A =
     \<lparr>assets = Some \<lparr>asset = Some
        [Some [(''assetId'', ''A''), (''state'', ''installed'')],
         Some [(''assetId'', ''B''), (''state'', ''downloading'')]]\<rparr>\<rparr>"

definition runtime_folder :: "(string \<times> node) list \<Rightarrow> node" where
  "runtime_folder entries =
     dir_at [''System'', ''Library'', ''AssetsV2'', ''com_apple_MobileAsset_iOSSimulatorRuntime'']
       (Dir entries)"

definition no_manifest :: world where
  "no_manifest = mac (runtime_folder [(''B.asset'', Dir [(''image'', File 4096)])]) []"

definition bad_manifest :: world where
  "bad_manifest =
     mac (runtime_folder
            [(''B.asset'', Dir [(''image'', File 4096)]),
             (''com_apple_MobileAsset_iOSSimulatorRuntime.xml'', File 17)]) []"

text \<open>
  A host whose logarithms are exact but for the three counts below \<open>1024 ^ 5\<close>, whose
  logarithm \<open>Math.log\<close> rounds to that of \<open>1024 ^ 5\<close>. A double is given by the count that
  has it as its logarithm, and a quotient by \<open>1024\<close> by its floor.
\<close>

definition rounding_host :: "nat host_math" where
  "rounding_host =
     \<lparr>Math_log = (\<lambda>bytes. if 1125899906842621 \<le> bytes \<and> bytes < 1125899906842624
                             then 1125899906842624 else bytes),
      double_div = (\<lambda>x y. if y = 1024 then floor_log_k x else 0),
      Math_floor = (\<lambda>q. q)\<rparr>"

section \<open>Properties of the version comparison and of keeping the latest version\<close>

lemma lex_cmp_refl: "lex_cmp s s = 0"
  by (induction s) auto

lemma cmp_run_refl: "cmp_run r r = 0"
  by (cases r) (auto simp: lex_cmp_refl)

lemma cmp_runs_refl: "cmp_runs rs rs = 0"
  by (induction rs) (auto simp: cmp_run_refl)

lemma mset_insert_sorted: "mset (insert_sorted cmp x ys) = add_mset x (mset ys)"
  by (induction ys) auto

lemma mset_array_sort: "mset (array_sort cmp xs) = mset xs"
  unfolding array_sort_def by (induction xs) (auto simp: mset_insert_sorted)

lemma length_array_sort: "length (array_sort cmp xs) = length xs"
  using mset_array_sort [of cmp xs] by (metis size_mset)

lemma keepLatestVersion_store_result:
  assumes "versions < length h"
  shows "\<exists>h'. keepLatestVersion_store h versions = (h', length h' - 1)
     \<and> take (length h) h' = h \<and> length h < length h'
     \<and> h' ! (length h' - 1) = keepLatestVersion (h ! versions)"
  using assms
  by (auto simp: keepLatestVersion_store_def keepLatestVersion_def alloc_def sort_in_place_def
      Let_def nth_append)

text \<open>
  C1. A group of at most one entry yields the empty removal set, and the group with labels
  1.0, 2.0, 1.5 yields the entries labelled 1.5 and 1.0 (the removal set {1.0, 1.5}): the
  entry labelled 2.0, the maximum under the version ordering, is kept.
\<close>

theorem keepLatestVersion_example:
  "(length versions \<le> 1 \<longrightarrow> keepLatestVersion versions = []) \<and>
   keepLatestVersion
     [\<lparr>label = ''1.0'', path = p1\<rparr>, \<lparr>label = ''2.0'', path = p2\<rparr>, \<lparr>label = ''1.5'', path = p3\<rparr>]
   = [\<lparr>label = ''1.5'', path = p3\<rparr>, \<lparr>label = ''1.0'', path = p1\<rparr>] \<and>
   set (map label (keepLatestVersion
     [\<lparr>label = ''1.0'', path = p1\<rparr>, \<lparr>label = ''2.0'', path = p2\<rparr>, \<lparr>label = ''1.5'', path = p3\<rparr>]))
   = {''1.0'', ''1.5''}"
proof -
  have small: "length versions \<le> 1 \<longrightarrow> keepLatestVersion versions = []"
    by (simp add: keepLatestVersion_def)
  have three: "keepLatestVersion
     [\<lparr>label = ''1.0'', path = p1\<rparr>, \<lparr>label = ''2.0'', path = p2\<rparr>, \<lparr>label = ''1.5'', path = p3\<rparr>]
   = [\<lparr>label = ''1.5'', path = p3\<rparr>, \<lparr>label = ''1.0'', path = p1\<rparr>]"
    by (simp add: keepLatestVersion_def array_sort_def version_cmp_def split_space_0_def
        localeCompare_numeric_def is_digit_def nat_of_digits_def digit_val_def)
  show ?thesis
    using small three by auto
qed

theorem keepLatestVersion_example_witness:
  "length [\<lparr>label = ''8.0.1'', path = [''packs'', ''8.0.1'']\<rparr>] \<le> 1 \<and>
   keepLatestVersion [\<lparr>label = ''8.0.1'', path = [''packs'', ''8.0.1'']\<rparr>] = [] \<and>
   keepLatestVersion
     [\<lparr>label = ''1.0'', path = [''1.0'']\<rparr>, \<lparr>label = ''2.0'', path = [''2.0'']\<rparr>,
      \<lparr>label = ''1.5'', path = [''1.5'']\<rparr>]
   = [\<lparr>label = ''1.5'', path = [''1.5'']\<rparr>, \<lparr>label = ''1.0'', path = [''1.0'']\<rparr>]"
  using keepLatestVersion_example
    [of "[\<lparr>label = ''8.0.1'', path = [''packs'', ''8.0.1'']\<rparr>]" "[''1.0'']" "[''2.0'']" "[''1.5'']"]
  by simp

text \<open>
  C3. The version comparison is reflexive-equal on every label; 2.0 is less than 10.0
  (digit runs compare by value, although 10.0 is lexically before 2.0); and 1.0 is less
  than 1.0.1 (a strict prefix is less).
\<close>

theorem compare_labels_properties:
  "compare_labels x x = 0 \<and>
   compare_labels ''2.0'' ''10.0'' < 0 \<and>
   lex_cmp ''10.0'' ''2.0'' < 0 \<and>
   compare_labels ''1.0'' ''1.0.1'' < 0"
proof -
  have refl: "compare_labels x x = 0"
    by (simp add: compare_labels_def localeCompare_numeric_def cmp_runs_refl)
  have conc: "compare_labels ''2.0'' ''10.0'' < 0 \<and> lex_cmp ''10.0'' ''2.0'' < 0
      \<and> compare_labels ''1.0'' ''1.0.1'' < 0"
    by (simp add: compare_labels_def split_space_0_def localeCompare_numeric_def is_digit_def
        nat_of_digits_def digit_val_def)
  show ?thesis using refl conc by simp
qed

text \<open>
  C9. \<open>keepLatestVersion\<close> leaves every array that existed before the call as it was, its
  input among them, and on an input of \<open>n \<ge> 2\<close> entries its result is a sub-multiset of
  the input with exactly \<open>n - 1\<close> entries: exactly one entry survives.
\<close>

theorem keepLatestVersion_removes_all_but_one:
  assumes "versions < length h"
  shows "case keepLatestVersion_store h versions of (h', r) \<Rightarrow>
           take (length h) h' = h \<and> r < length h' \<and>
           (2 \<le> length (h ! versions) \<longrightarrow>
              mset (h' ! r) \<subseteq># mset (h ! versions) \<and>
              length (h' ! r) = length (h ! versions) - 1)"
proof -
  obtain h' where run: "keepLatestVersion_store h versions = (h', length h' - 1)"
    and same: "take (length h) h' = h" and grown: "length h < length h'"
    and res: "h' ! (length h' - 1) = keepLatestVersion (h ! versions)"
    using keepLatestVersion_store_result [OF assms] by blast
  have sub: "mset (keepLatestVersion xs) \<subseteq># mset xs" for xs
  proof -
    have "mset (drop 1 (array_sort version_cmp xs)) \<subseteq># mset (array_sort version_cmp xs)"
      by (metis append_take_drop_id mset_subset_eq_add_right mset_append)
    then show ?thesis
      by (simp add: keepLatestVersion_def mset_array_sort)
  qed
  have len: "2 \<le> length xs \<Longrightarrow> length (keepLatestVersion xs) = length xs - 1" for xs
    by (simp add: keepLatestVersion_def length_array_sort)
  show ?thesis
    using run same grown res sub len by auto
qed

theorem keepLatestVersion_removes_all_but_one_witness:
  "(0::nat) < length [[\<lparr>label = ''1.0'', path = [''a'']\<rparr>, \<lparr>label = ''2.0'', path = [''b'']\<rparr>]]
   \<and> keepLatestVersion_store [[\<lparr>label = ''1.0'', path = [''a'']\<rparr>, \<lparr>label = ''2.0'', path = [''b'']\<rparr>]] 0
     = ([[\<lparr>label = ''1.0'', path = [''a'']\<rparr>, \<lparr>label = ''2.0'', path = [''b'']\<rparr>],
         [\<lparr>label = ''2.0'', path = [''b'']\<rparr>, \<lparr>label = ''1.0'', path = [''a'']\<rparr>],
         [\<lparr>label = ''1.0'', path = [''a'']\<rparr>]], 2)
   \<and> mset [\<lparr>label = ''1.0'', path = [''a'']\<rparr>]
        \<subseteq># mset [\<lparr>label = ''1.0'', path = [''a'']\<rparr>, \<lparr>label = ''2.0'', path = [''b'']\<rparr>]"
  using keepLatestVersion_removes_all_but_one
    [of 0 "[[\<lparr>label = ''1.0'', path = [''a'']\<rparr>, \<lparr>label = ''2.0'', path = [''b'']\<rparr>]]"]
  by (simp add: keepLatestVersion_store_def alloc_def sort_in_place_def array_sort_def
      version_cmp_def split_space_0_def localeCompare_numeric_def is_digit_def
      nat_of_digits_def digit_val_def)

section \<open>Properties of the folder size\<close>

lemma total_file_bytes_Dir:
  "total_file_bytes (Dir entries) = sum_list (map (\<lambda>(name, child). total_file_bytes child) entries)"
proof (induction entries)
  case Nil
  then show ?case by (simp add: total_file_bytes_def)
next
  case (Cons e entries)
  obtain name child where e: "e = (name, child)" by (cases e)
  have "snd \<circ> (\<lambda>(p, n). (name # p, n :: nat)) = snd"
    by (auto simp: fun_eq_iff)
  then show ?case
    using Cons by (simp add: total_file_bytes_def e)
qed

lemma wf_node_lookup: "wf_node fs \<Longrightarrow> lookup fs p = Some n \<Longrightarrow> wf_node n"
proof (induction fs p rule: lookup.induct)
  case (2 entries name rest)
  from "2.prems" obtain child where c: "map_of entries name = Some child"
    and l: "lookup child rest = Some n"
    by (auto split: option.splits)
  from c have "(name, child) \<in> set entries" by (rule map_of_SomeD)
  with "2.prems"(1) have "wf_node child" by (auto simp: list_all_iff)
  with "2.IH" c l show ?case by simp
qed simp_all

lemma getFolderSize_loop_entries:
  assumes dir: "lookup fs p = Some (Dir entries)"
    and dist: "distinct (map fst entries)"
    and sub: "set rest \<subseteq> set entries"
    and ih: "\<And>name child es. (name, child) \<in> set rest \<Longrightarrow> child = Dir es \<Longrightarrow>
               getFolderSize fs (p @ [name]) = Inr (total_file_bytes child)"
  shows "getFolderSize_loop fs p (map fst rest) acc
         = Inr (acc + sum_list (map (\<lambda>(name, child). total_file_bytes child) rest))"
  using sub ih
proof (induction rest arbitrary: acc)
  case Nil
  then show ?case by (simp add: getFolderSize.simps)
next
  case (Cons e rest)
  obtain name child where e: "e = (name, child)" by (cases e)
  with Cons.prems(1) have mem: "(name, child) \<in> set entries" by simp
  with dist have "map_of entries name = Some child" by simp
  with dir have st: "statSync fs (p @ [name]) = Inr child"
    by (simp add: statSync_def lookup_snoc)
  have rest: "getFolderSize_loop fs p (map fst rest) acc'
      = Inr (acc' + sum_list (map (\<lambda>(name, child). total_file_bytes child) rest))" for acc'
    using Cons.IH [of acc'] Cons.prems by auto
  show ?case
  proof (cases child)
    case (File n)
    then show ?thesis
      using st rest by (simp add: e getFolderSize.simps total_file_bytes_def)
  next
    case (Dir es)
    with Cons.prems(2) [of name child es] e
    have "getFolderSize fs (p @ [name]) = Inr (total_file_bytes child)" by simp
    then show ?thesis
      using st rest Dir by (simp add: e getFolderSize.simps)
  next
    case Other
    then show ?thesis
      using st rest by (simp add: e getFolderSize.simps total_file_bytes_def)
  qed
qed

lemma getFolderSize_Dir:
  "wf_node fs \<Longrightarrow> lookup fs p = Some t \<Longrightarrow> t = Dir entries \<Longrightarrow>
   getFolderSize fs p = Inr (total_file_bytes t)"
proof (induction t arbitrary: p entries)
  case (File n)
  then show ?case by simp
next
  case (Dir es)
  then have es: "es = entries" by simp
  have wf: "wf_node (Dir entries)"
    using wf_node_lookup [OF Dir.prems(1) Dir.prems(2)] es by simp
  then have dist: "distinct (map fst entries)" by simp
  have look: "lookup fs p = Some (Dir entries)" using Dir.prems(2) es by simp
  have ih: "getFolderSize fs (p @ [name]) = Inr (total_file_bytes child)"
    if "(name, child) \<in> set entries" "child = Dir es'" for name child es'
  proof -
    from that(1) dist have "map_of entries name = Some child" by simp
    with look have "lookup fs (p @ [name]) = Some child" by (simp add: lookup_snoc)
    moreover have "child \<in> Basic_BNFs.snds (name, child)" by simp
    ultimately show ?thesis
      using Dir.IH [of "(name, child)" child "p @ [name]" es'] that es Dir.prems(1) by simp
  qed
  have "getFolderSize_loop fs p (map fst entries) 0
        = Inr (0 + sum_list (map (\<lambda>(name, child). total_file_bytes child) entries))"
    by (rule getFolderSize_loop_entries [OF look dist subset_refl ih])
  then show ?case
    using look by (simp add: getFolderSize.simps [of fs p] existsSync_def readdirSync_def
        total_file_bytes_Dir es)
next
  case Other
  then show ?case by simp
qed

lemma files_under_Dir_Nil: "([], n) \<notin> set (files_under (Dir entries))"
  by (induction entries) auto

lemma files_under_Dir_Cons:
  "((name # rest, n) \<in> set (files_under (Dir entries)))
   = (\<exists>child. (name, child) \<in> set entries \<and> (rest, n) \<in> set (files_under child))"
proof (induction entries)
  case Nil
  then show ?case by simp
next
  case (Cons e entries)
  obtain name' child' where e: "e = (name', child')" by (cases e)
  have head: "((name # rest, n) \<in> (\<lambda>(p, n). (name' # p, n)) ` set (files_under child'))
      = (name = name' \<and> (rest, n) \<in> set (files_under child'))"
    by force
  from Cons have tail: "((name # rest, n) \<in> set (files_under (Dir entries)))
      = (\<exists>child. (name, child) \<in> set entries \<and> (rest, n) \<in> set (files_under child))" .
  have "((name # rest, n) \<in> set (files_under (Dir (e # entries))))
      = ((name # rest, n) \<in> (\<lambda>(p, n). (name' # p, n)) ` set (files_under child')
         \<or> (name # rest, n) \<in> set (files_under (Dir entries)))"
    by (simp add: e)
  also have "\<dots> = ((name = name' \<and> (rest, n) \<in> set (files_under child'))
         \<or> (\<exists>child. (name, child) \<in> set entries \<and> (rest, n) \<in> set (files_under child)))"
    by (simp only: head tail)
  also have "\<dots> = (\<exists>child. (name, child) \<in> set (e # entries) \<and> (rest, n) \<in> set (files_under child))"
    by (auto simp: e)
  finally show ?case .
qed

lemma files_under_lookup:
  "wf_node t \<Longrightarrow> ((p, n) \<in> set (files_under t)) = (lookup t p = Some (File n))"
proof (induction t arbitrary: p)
  case (File m)
  then show ?case by (cases p) auto
next
  case (Dir entries)
  show ?case
  proof (cases p)
    case Nil
    then show ?thesis
      using files_under_Dir_Nil [of n entries] by (simp del: files_under.simps)
  next
    case (Cons name rest)
    have dist: "distinct (map fst entries)" using Dir.prems by simp
    show ?thesis
    proof (cases "map_of entries name")
      case None
      then have "\<And>child. (name, child) \<notin> set entries"
        by (metis map_of_eq_None_iff fst_conv image_eqI)
      then have "(name # rest, n) \<notin> set (files_under (Dir entries))"
        unfolding files_under_Dir_Cons by blast
      with None show ?thesis by (simp add: Cons del: files_under.simps)
    next
      case (Some child)
      then have mem: "(name, child) \<in> set entries" by (rule map_of_SomeD)
      with Dir.prems have wfc: "wf_node child" by (auto simp: list_all_iff)
      have uniq: "(name, c) \<in> set entries \<Longrightarrow> c = child" for c
        using dist Some by (metis map_of_is_SomeI option.inject)
      have "child \<in> Basic_BNFs.snds (name, child)" by simp
      with Dir.IH [of "(name, child)" child rest] mem wfc
      have ih: "((rest, n) \<in> set (files_under child)) = (lookup child rest = Some (File n))"
        by simp
      have "((name # rest, n) \<in> set (files_under (Dir entries)))
          = ((rest, n) \<in> set (files_under child))"
        unfolding files_under_Dir_Cons using mem uniq by blast
      with ih Some show ?thesis by (simp add: Cons del: files_under.simps)
    qed
  qed
next
  case Other
  then show ?case by (cases p) auto
qed

text \<open>On a path that is a regular file, \<open>readdirSync\<close> throws and so does \<open>getFolderSize\<close>.\<close>

lemma getFolderSize_regular_file:
  "lookup t p = Some (File n) \<Longrightarrow> getFolderSize t p = Inl (ENOTDIR p)"
  by (simp add: getFolderSize.simps [of t p] existsSync_def readdirSync_def)

text \<open>
  C4. \<open>getFolderSize\<close> returns 0 for a path that does not exist, and for a path that is a
  directory it returns the sum of the sizes of all regular files under that directory, at
  any depth; entries that are neither regular files nor directories add nothing. The
  paths of \<open>files_under\<close> are exactly the paths that resolve to a regular file
  (\<open>files_under_lookup\<close>).
\<close>

theorem getFolderSize_sums_regular_files:
  "(lookup fs folderPath = None \<longrightarrow> getFolderSize fs folderPath = Inr 0) \<and>
   (wf_node fs \<longrightarrow> lookup fs folderPath = Some (Dir entries) \<longrightarrow>
      getFolderSize fs folderPath = Inr (total_file_bytes (Dir entries)))"
proof -
  have missing: "lookup fs folderPath = None \<longrightarrow> getFolderSize fs folderPath = Inr 0"
    by (simp add: getFolderSize.simps [of fs folderPath] existsSync_def)
  show ?thesis
    using missing getFolderSize_Dir [of fs folderPath "Dir entries" entries] by blast
qed

theorem getFolderSize_sums_regular_files_witness:
  "lookup (Dir [(''sdk'', Dir [(''a.bin'', File 3), (''sub'', Dir [(''c'', File 4), (''sock'', Other)])])])
      [''none''] = None \<and>
   getFolderSize (Dir [(''sdk'', Dir [(''a.bin'', File 3), (''sub'', Dir [(''c'', File 4), (''sock'', Other)])])])
      [''none''] = Inr 0 \<and>
   wf_node (Dir [(''sdk'', Dir [(''a.bin'', File 3), (''sub'', Dir [(''c'', File 4), (''sock'', Other)])])]) \<and>
   lookup (Dir [(''sdk'', Dir [(''a.bin'', File 3), (''sub'', Dir [(''c'', File 4), (''sock'', Other)])])])
      [''sdk''] = Some (Dir [(''a.bin'', File 3), (''sub'', Dir [(''c'', File 4), (''sock'', Other)])]) \<and>
   getFolderSize (Dir [(''sdk'', Dir [(''a.bin'', File 3), (''sub'', Dir [(''c'', File 4), (''sock'', Other)])])])
      [''sdk''] = Inr 7"
  using getFolderSize_sums_regular_files
      [of "Dir [(''sdk'', Dir [(''a.bin'', File 3), (''sub'', Dir [(''c'', File 4), (''sock'', Other)])])]"
          "[''none'']"]
    getFolderSize_sums_regular_files
      [of "Dir [(''sdk'', Dir [(''a.bin'', File 3), (''sub'', Dir [(''c'', File 4), (''sock'', Other)])])]"
          "[''sdk'']" "[(''a.bin'', File 3), (''sub'', Dir [(''c'', File 4), (''sock'', Other)])]"]
  by (simp add: total_file_bytes_def)

section \<open>Properties of the commands\<close>

lemmas format_defs = formatBytes_def floor_log_k.simps toFixed2_def show_hundredths_def
  show_nat.simps digit_char_def sizes_def

lemmas parse_defs = parseInt_def split_1_def is_digit_def nat_of_digits_def digit_val_def
  size_cmp_def

lemmas version_cmp_defs = version_cmp_def split_space_0_def localeCompare_numeric_def
  is_digit_def nat_of_digits_def digit_val_def

lemmas fs_defs = getFolderSize.simps existsSync_def readdirSync_def statSync_def
  deleteFolderRecursive_def

lemmas sweep_defs = cleanAllExceptLatest_def cleanAllExceptLatest_try_def
  sweep_deviceSupport_def sweep_androidSdk_def sweep_dotnetPacks_def sweep_simulatorRuntime_def
  sweep_versions_def deviceSupportPath_def runtimePath_def xmlPath_def keepLatestVersion_def
  array_sort_def showErrorMessage_def showInformationMessage_def

text \<open>
  With the unit index computed exactly, a byte count from 1 up to \<open>1024 ^ 5 - 1\<close> has its
  unit in the table of \<open>formatBytes\<close> and a scaled value from 1 up to 1024; from
  \<open>1024 ^ 5\<close> on the index is past the table.
\<close>

lemma floor_log_k_bounds:
  "0 < bytes \<Longrightarrow> 1024 ^ floor_log_k bytes \<le> bytes \<and> bytes < 1024 * 1024 ^ floor_log_k bytes"
proof (induction bytes rule: floor_log_k.induct)
  case (1 bytes)
  show ?case
  proof (cases "bytes < 1024")
    case True
    with "1.prems" show ?thesis by (simp add: floor_log_k.simps [of bytes])
  next
    case False
    then have "0 < bytes div 1024" by simp
    with "1.IH" False
    have ih: "1024 ^ floor_log_k (bytes div 1024) \<le> bytes div 1024"
      "bytes div 1024 < 1024 * 1024 ^ floor_log_k (bytes div 1024)"
      by simp_all
    have eq: "floor_log_k bytes = Suc (floor_log_k (bytes div 1024))"
      using False by (simp add: floor_log_k.simps [of bytes])
    from ih(1) have "1024 * 1024 ^ floor_log_k (bytes div 1024) \<le> bytes" by simp
    moreover from ih(2) have "bytes < 1024 * (1024 * 1024 ^ floor_log_k (bytes div 1024))"
      by simp
    ultimately show ?thesis by (simp add: eq)
  qed
qed

lemma floor_log_k_unit_index:
  "(0 < bytes \<and> bytes < 1024 ^ 5 \<longrightarrow> floor_log_k bytes < length sizes)
   \<and> (1024 ^ 5 \<le> bytes \<longrightarrow> length sizes \<le> floor_log_k bytes)"
proof (intro conjI impI)
  assume a: "0 < bytes \<and> bytes < 1024 ^ 5"
  then have lt: "(1024::nat) ^ floor_log_k bytes < 1024 ^ 5"
    using floor_log_k_bounds [of bytes] by linarith
  have "floor_log_k bytes < 5"
  proof (rule power_less_imp_less_exp [of "1024::nat"])
    show "1 < (1024::nat)" by simp
    show "(1024::nat) ^ floor_log_k bytes < 1024 ^ 5" by (rule lt)
  qed
  then show "floor_log_k bytes < length sizes" by (simp add: sizes_def)
next
  assume a: "1024 ^ 5 \<le> bytes"
  then have "0 < bytes" by simp
  then have lt: "(1024::nat) ^ 5 < 1024 ^ Suc (floor_log_k bytes)"
    using floor_log_k_bounds [of bytes] a by simp
  have "5 < Suc (floor_log_k bytes)"
  proof (rule power_less_imp_less_exp [of "1024::nat"])
    show "1 < (1024::nat)" by simp
    show "(1024::nat) ^ 5 < 1024 ^ Suc (floor_log_k bytes)" by (rule lt)
  qed
  then show "length sizes \<le> floor_log_k bytes" by (simp add: sizes_def)
qed

text \<open>Where the host's index is the exact one, \<open>formatBytes_on\<close> is \<open>formatBytes\<close>.\<close>

lemma formatBytes_on_exact:
  "unit_index m bytes = floor_log_k bytes \<Longrightarrow> formatBytes_on m bytes = formatBytes bytes"
  by (simp add: formatBytes_on_def formatBytes_def)

lemma formatBytes_exact_below_table_limit: "formatBytes 1125899906842623 = ''1024 TB''"
  by (simp add: format_defs)

text \<open>
  C10. \<open>formatBytes 0\<close> is "0 Bytes" on every host. The count 1125899906842623 is below
  \<open>1024 ^ 5\<close>, and its logarithm differs from that of \<open>1024 ^ 5\<close> by less than half the
  distance between two doubles there: on a host where \<open>Math.log\<close> gives both counts the
  same double, the index is the same for both, so it cannot be inside the unit table for
  the one and past it for the other; and where the index of \<open>1024 ^ 5\<close> is 5, the
  function returns "1 undefined" for 1125899906842623, with no unit of the table.
\<close>

theorem formatBytes_on_below_table_limit:
  "formatBytes_on m 0 = ''0 Bytes''
   \<and> (Math_log m 1125899906842623 = Math_log m 1125899906842624
        \<and> unit_index m 1125899906842624 = 5
      \<longrightarrow> formatBytes_on m 1125899906842623 = ''1 undefined'')
   \<and> (Math_log m 1125899906842623 = Math_log m 1125899906842624
      \<longrightarrow> \<not> (unit_index m 1125899906842623 < length sizes
             \<and> length sizes \<le> unit_index m 1125899906842624))
   \<and> (1125899906842623::nat) < 1024 ^ 5 \<and> (1024::nat) ^ 5 \<le> 1125899906842624"
proof (intro conjI impI)
  show "formatBytes_on m 0 = ''0 Bytes''"
    by (simp add: formatBytes_on_def)
next
  assume a: "Math_log m 1125899906842623 = Math_log m 1125899906842624
        \<and> unit_index m 1125899906842624 = 5"
  then have i: "unit_index m 1125899906842623 = 5"
    by (simp add: unit_index_def)
  have fixed: "toFixed2 1125899906842623 5 = 100"
    by (simp add: toFixed2_def)
  have shown: "show_hundredths 100 = ''1''"
    by (simp add: show_hundredths_def show_nat.simps digit_char_def)
  show "formatBytes_on m 1125899906842623 = ''1 undefined''"
    by (simp add: formatBytes_on_def i fixed shown sizes_def)
next
  assume a: "Math_log m 1125899906842623 = Math_log m 1125899906842624"
  then have "unit_index m 1125899906842623 = unit_index m 1125899906842624"
    by (simp add: unit_index_def)
  then show "\<not> (unit_index m 1125899906842623 < length sizes
             \<and> length sizes \<le> unit_index m 1125899906842624)"
    by simp
next
  show "(1125899906842623::nat) < 1024 ^ 5" by simp
next
  show "(1024::nat) ^ 5 \<le> 1125899906842624" by simp
qed

theorem formatBytes_on_below_table_limit_witness:
  "Math_log rounding_host 1125899906842623 = Math_log rounding_host 1125899906842624
   \<and> unit_index rounding_host 1125899906842624 = 5
   \<and> formatBytes_on rounding_host 1125899906842623 = ''1 undefined''
   \<and> \<not> (unit_index rounding_host 1125899906842623 < length sizes
          \<and> length sizes \<le> unit_index rounding_host 1125899906842624)"
proof -
  have collide: "Math_log rounding_host 1125899906842623 = Math_log rounding_host 1125899906842624"
    by (simp add: rounding_host_def)
  have top: "unit_index rounding_host 1125899906842624 = 5"
    by (simp add: rounding_host_def unit_index_def floor_log_k.simps)
  show ?thesis
    using formatBytes_on_below_table_limit [of rounding_host] collide top by simp
qed

text \<open>
  C8. On a platform other than macOS, the iOS Device Support cleaner and the iOS Simulator
  Runtime cleaner only add the informational message "This command is only available on
  macOS": whatever the file system holds and whatever the user would pick, the file system
  is unchanged and no error message is shown.
\<close>

theorem platform_restricted_commands_noop:
  assumes "platform w \<noteq> ''darwin''"
  shows "cleanIosDeviceSupport pick w
           = w\<lparr>messages := messages w @ [InformationMessage ''This command is only available on macOS'']\<rparr>
       \<and> cleanIosSimulatorRuntime pick' confirm w
           = w\<lparr>messages := messages w @ [InformationMessage ''This command is only available on macOS'']\<rparr>
       \<and> filesystem (cleanIosDeviceSupport pick w) = filesystem w
       \<and> filesystem (cleanIosSimulatorRuntime pick' confirm w) = filesystem w"
  using assms
  by (simp add: cleanIosDeviceSupport_def cleanIosSimulatorRuntime_def showInformationMessage_def)

theorem platform_restricted_commands_noop_witness:
  "platform (three_device_folders\<lparr>platform := ''win32''\<rparr>) \<noteq> ''darwin''
   \<and> cleanIosDeviceSupport (\<lambda>items. Some items) (three_device_folders\<lparr>platform := ''win32''\<rparr>)
       = three_device_folders\<lparr>platform := ''win32'',
           messages := [InformationMessage ''This command is only available on macOS'']\<rparr>
   \<and> cleanIosSimulatorRuntime (\<lambda>items. Some items) (\<lambda>question. Some ''Yes'')
         (three_device_folders\<lparr>platform := ''win32''\<rparr>)
       = three_device_folders\<lparr>platform := ''win32'',
           messages := [InformationMessage ''This command is only available on macOS'']\<rparr>"
  using platform_restricted_commands_noop
      [of "three_device_folders\<lparr>platform := ''win32''\<rparr>" "\<lambda>items. Some items"
          "\<lambda>items. Some items" "\<lambda>question. Some ''Yes''"]
  by (simp add: three_device_folders_def mac_def)

text \<open>
  C5. The "Sort by size" steps compare \<open>parseInt\<close> of the formatted size, the leading
  integer of a text such as "5 KB" or "3 GB", not the byte size. With a device-support
  folder of 3221225472 bytes and one of 5120 bytes, the picker presents the smaller folder
  first (5 against 3); the simulator-runtime picker puts the not-in-use assets first and
  orders them the same way.
\<close>

theorem presented_order_example:
  "getFolderSize (filesystem two_device_folders) (deviceSupportPath two_device_folders @ [''16.4''])
     = Inr 3221225472
   \<and> getFolderSize (filesystem two_device_folders) (deviceSupportPath two_device_folders @ [''17.0''])
     = Inr 5120
   \<and> deviceSupport_items two_device_folders [''16.4'', ''17.0'']
     = Inr [\<lparr>label = ''17.0'',
               path = [''Users'', ''dev'', ''Library'', ''Developer'', ''Xcode'', ''iOS DeviceSupport'', ''17.0''],
               description = ''Size: 5 KB''\<rparr>,
            \<lparr>label = ''16.4'',
               path = [''Users'', ''dev'', ''Library'', ''Developer'', ''Xcode'', ''iOS DeviceSupport'', ''16.4''],
               description = ''Size: 3 GB''\<rparr>]
   \<and> runtime_items [Some ''A'']
        [(''A.asset'', [''A.asset''], 5120), (''B.asset'', [''B.asset''], 5120),
         (''C.asset'', [''C.asset''], 3221225472)]
     = [\<lparr>label = ''B.asset'', path = [''B.asset''], description = ''Not in use'',
          detail = ''Size: 5 KB'', isUsed = False\<rparr>,
        \<lparr>label = ''C.asset'', path = [''C.asset''], description = ''Not in use'',
          detail = ''Size: 3 GB'', isUsed = False\<rparr>,
        \<lparr>label = ''A.asset'', path = [''A.asset''], description = ''Currently in use'',
          detail = ''Size: 5 KB'', isUsed = True\<rparr>]"
proof -
  have sizes: "getFolderSize (filesystem two_device_folders)
        (deviceSupportPath two_device_folders @ [''16.4'']) = Inr 3221225472
      \<and> getFolderSize (filesystem two_device_folders)
        (deviceSupportPath two_device_folders @ [''17.0'']) = Inr 5120"
    by (simp add: two_device_folders_def mac_def deviceSupportPath_def fs_defs)
  have folders: "deviceSupport_items two_device_folders [''16.4'', ''17.0'']
     = Inr [\<lparr>label = ''17.0'',
               path = [''Users'', ''dev'', ''Library'', ''Developer'', ''Xcode'', ''iOS DeviceSupport'', ''17.0''],
               description = ''Size: 5 KB''\<rparr>,
            \<lparr>label = ''16.4'',
               path = [''Users'', ''dev'', ''Library'', ''Developer'', ''Xcode'', ''iOS DeviceSupport'', ''16.4''],
               description = ''Size: 3 GB''\<rparr>]"
    by (simp add: two_device_folders_def mac_def deviceSupport_items_def deviceSupportPath_def
        sort_by_size_def array_sort_def fs_defs format_defs parse_defs)
  have assets: "runtime_items [Some ''A'']
        [(''A.asset'', [''A.asset''], 5120), (''B.asset'', [''B.asset''], 5120),
         (''C.asset'', [''C.asset''], 3221225472)]
     = [\<lparr>label = ''B.asset'', path = [''B.asset''], description = ''Not in use'',
          detail = ''Size: 5 KB'', isUsed = False\<rparr>,
        \<lparr>label = ''C.asset'', path = [''C.asset''], description = ''Not in use'',
          detail = ''Size: 3 GB'', isUsed = False\<rparr>,
        \<lparr>label = ''A.asset'', path = [''A.asset''], description = ''Currently in use'',
          detail = ''Size: 5 KB'', isUsed = True\<rparr>]"
    by (simp add: runtime_items_def runtime_item_of_def usage_size_cmp_def array_sort_def
        format_defs parse_defs)
  show ?thesis using sizes folders assets by simp
qed

text \<open>
  The picker's removal loop handles every item: each one is either counted as removed or
  recorded by an error message.
\<close>

lemma deleteFolderRecursive_messages:
  "deleteFolderRecursive w p = Inr w' \<Longrightarrow> messages w' = messages w"
  by (auto simp: deleteFolderRecursive_def split: if_splits)

lemma remove_selected_accounts_for_every_item:
  "remove_selected describe items w removedCount totalSize = (w', removedCount', totalSize')
   \<Longrightarrow> removedCount' + length (messages w')
       = removedCount + length (messages w) + length items"
proof (induction items arbitrary: w removedCount totalSize)
  case Nil
  then show ?case by simp
next
  case (Cons item items)
  show ?case
  proof (cases "getFolderSize (filesystem w) (path item)")
    case (Inl error)
    with Cons.prems Cons.IH [of "showErrorMessage w (describe item @ error_message error)"
        removedCount totalSize]
    show ?thesis by (simp add: showErrorMessage_def)
  next
    case (Inr size')
    show ?thesis
    proof (cases "deleteFolderRecursive w (path item)")
      case (Inl error)
      with Inr Cons.prems Cons.IH [of "showErrorMessage w (describe item @ error_message error)"
          removedCount totalSize]
      show ?thesis by (simp add: showErrorMessage_def)
    next
      case del: (Inr w2)
      with Inr Cons.prems Cons.IH [of w2 "removedCount + 1" "totalSize + size'"]
        deleteFolderRecursive_messages [OF del]
      show ?thesis by simp
    qed
  qed
qed

text \<open>
  C2. Three device-support folders 15.0, 16.0 and 17.0, where removing 16.0 fails. The
  keep-latest-only sweep removes 16.0 first: the failure leaves its loop, the sweep ends
  with one error message, and 15.0 is never tried. The picker's loop on the same two
  folders, 16.0 then 15.0, records the failure of 16.0, goes on, removes 15.0 and reports
  one folder removed and the 300 bytes of 15.0 freed.
\<close>

theorem sweep_aborts_where_picker_loop_continues:
  "cleanAllExceptLatest three_device_folders
     = three_device_folders
         \<lparr>messages := [ErrorMessage ''Error cleaning all except latest versions: Command failed'']\<rparr>
   \<and> cleanIosDeviceSupport (\<lambda>items. Some (rev (filter (\<lambda>i. label i \<noteq> ''17.0'') items)))
       three_device_folders
     = three_device_folders
         \<lparr>filesystem :=
            dir_at [''Users'', ''dev'', ''Library'', ''Developer'', ''Xcode'', ''iOS DeviceSupport'']
              (Dir [(''16.0'', Dir [(''Symbols'', File 200)]),
                    (''17.0'', Dir [(''Symbols'', File 100)])]),
          messages := [ErrorMessage ''Error removing 16.0: Command failed'',
                       InformationMessage ''Removed 1 iOS Device Support folders, freeing 300 Bytes'']\<rparr>"
proof -
  have s: "cleanAllExceptLatest three_device_folders
     = three_device_folders
         \<lparr>messages := [ErrorMessage ''Error cleaning all except latest versions: Command failed'']\<rparr>"
    by (simp add: three_device_folders_def mac_def sweep_defs fs_defs version_cmp_defs)
  have p: "cleanIosDeviceSupport (\<lambda>items. Some (rev (filter (\<lambda>i. label i \<noteq> ''17.0'') items)))
       three_device_folders
     = three_device_folders
         \<lparr>filesystem :=
            dir_at [''Users'', ''dev'', ''Library'', ''Developer'', ''Xcode'', ''iOS DeviceSupport'']
              (Dir [(''16.0'', Dir [(''Symbols'', File 200)]),
                    (''17.0'', Dir [(''Symbols'', File 100)])]),
          messages := [ErrorMessage ''Error removing 16.0: Command failed'',
                       InformationMessage ''Removed 1 iOS Device Support folders, freeing 300 Bytes'']\<rparr>"
    by (simp add: three_device_folders_def mac_def cleanIosDeviceSupport_def
        cleanIosDeviceSupport_try_def deviceSupport_items_def sort_by_size_def deviceSupportPath_def
        array_sort_def showErrorMessage_def showInformationMessage_def fs_defs format_defs parse_defs)
  show ?thesis using s p by simp
qed

lemma replace_first_suffix:
  "CHR ''.'' \<notin> set ident \<Longrightarrow> replace_first ''.asset'' (ident @ ''.asset'') = ident"
  by (induction ident) auto

text \<open>
  C6. With the manifest marking A as installed and the folders A.asset and B.asset, A.asset
  is tagged in use, B.asset is not, and the sweep's removal set for the asset bundles is
  B.asset alone. The name is stripped by \<open>replace('.asset', '')\<close>, which removes the first
  occurrence: for the folder sim.asset.v2.asset and the installed identifier sim.asset.v2
  the stripped name is sim.v2.asset, the folder is tagged not in use, and the sweep's
  removal set holds it. For an identifier without a dot the first occurrence is the
  suffix (\<open>replace_first_suffix\<close>).
\<close>

theorem inUse_tagging_example:
  "usedRuntimes_of manifest_A = Inr [Some ''A'']
   \<and> map (\<lambda>i. (label i, isUsed i))
        (runtime_items [Some ''A''] [(''A.asset'', pA, 1024), (''B.asset'', pB, 1024)])
      = [(''B.asset'', False), (''A.asset'', True)]
   \<and> map label (filter (\<lambda>asset. \<not> asset_item.isUsed asset)
        (sweep_assetFolders [Some ''A''] [''A.asset'', ''B.asset'']))
      = [''B.asset'']
   \<and> replace_first ''.asset'' ''sim.asset.v2.asset'' = ''sim.v2.asset''
   \<and> isUsed (runtime_item_of [Some ''sim.asset.v2''] (''sim.asset.v2.asset'', p, n)) = False
   \<and> map label (filter (\<lambda>asset. \<not> asset_item.isUsed asset)
        (sweep_assetFolders [Some ''sim.asset.v2''] [''sim.asset.v2.asset'']))
      = [''sim.asset.v2.asset'']"
  by (simp add: manifest_A_def usedRuntimes_of_def runtime_items_def runtime_item_of_def
      usage_size_cmp_def array_sort_def sweep_assetFolders_def endsWith_def runtimePath_def format_defs parse_defs)

text \<open>
  C7, as stated, fails in the sweep: with the asset folder present and no manifest file, the
  sweep shows no error; it skips the asset bundles and reports its totals.
\<close>

theorem sweep_skips_absent_manifest:
  "existsSync (filesystem no_manifest) runtimePath
   \<and> \<not> existsSync (filesystem no_manifest) xmlPath
   \<and> cleanAllExceptLatest no_manifest
       = no_manifest\<lparr>messages :=
           [InformationMessage ''Removed 0 items, freeing 0 Bytes. Kept only the latest versions.'']\<rparr>"
  by (simp add: no_manifest_def runtime_folder_def mac_def sweep_defs fs_defs format_defs)

lemma cleanIosSimulatorRuntime_absent:
  assumes "platform w = ''darwin''" "\<not> existsSync (filesystem w) xmlPath"
  shows "cleanIosSimulatorRuntime pick confirm w
         = showErrorMessage w ''iOS Simulator Runtime XML file not found''"
  using assms by (simp add: cleanIosSimulatorRuntime_def cleanIosSimulatorRuntime_try_def)

lemma read_and_parse_unparsable:
  assumes "lookup (filesystem w) xmlPath = Some (File n)" "xml_parse w = Inl m"
  shows "existsSync (filesystem w) xmlPath" "read_and_parse w xmlPath = Inl (ParseFailure m)"
  using assms by (simp_all add: existsSync_def read_and_parse_def)

lemma cleanIosSimulatorRuntime_unparsable:
  assumes "platform w = ''darwin''" "lookup (filesystem w) xmlPath = Some (File n)"
    "xml_parse w = Inl m"
  shows "cleanIosSimulatorRuntime pick confirm w
         = showErrorMessage w (''Error cleaning iOS Simulator Runtime: '' @ m)"
  using assms(1) read_and_parse_unparsable [OF assms(2,3)]
  by (simp add: cleanIosSimulatorRuntime_def cleanIosSimulatorRuntime_try_def)

lemma lookup_xmlPath_runtimePath:
  "lookup t xmlPath = Some n \<Longrightarrow> existsSync t runtimePath"
  by (auto simp: xmlPath_def existsSync_def lookup_snoc split: option.splits)

lemma sweep_simulatorRuntime_unparsable:
  assumes "platform w = ''darwin''" "lookup (filesystem w) xmlPath = Some (File n)"
    "xml_parse w = Inl m"
  shows "sweep_simulatorRuntime (w, totalSize, removedCount) = Inl (ParseFailure m, w)"
  using assms(1) read_and_parse_unparsable [OF assms(2,3)]
    lookup_xmlPath_runtimePath [OF assms(2)]
  by (simp add: sweep_simulatorRuntime_def)

lemma sweep_simulatorRuntime_absent:
  assumes "\<not> existsSync (filesystem w) xmlPath"
  shows "sweep_simulatorRuntime (w, totalSize, removedCount) = Inr (w, totalSize, removedCount)"
  using assms by (simp add: sweep_simulatorRuntime_def)

text \<open>
  C7, amended. On macOS the interactive simulator-runtime command ends with an error
  message and the file system unchanged when the manifest file is absent, and when it is
  a file whose content does not parse. In the sweep, once the three earlier steps have
  finished, a manifest that does not parse ends the sweep with an error message; an
  absent manifest makes the sweep skip the asset bundles: nothing more is removed and the
  sweep reports its totals.
\<close>

theorem manifest_unavailable:
  "(platform w = ''darwin'' \<and> \<not> existsSync (filesystem w) xmlPath \<longrightarrow>
      cleanIosSimulatorRuntime pick confirm w
        = showErrorMessage w ''iOS Simulator Runtime XML file not found'')
   \<and> (platform w = ''darwin'' \<and> lookup (filesystem w) xmlPath = Some (File n)
        \<and> xml_parse w = Inl m \<longrightarrow>
      cleanIosSimulatorRuntime pick confirm w
        = showErrorMessage w (''Error cleaning iOS Simulator Runtime: '' @ m))
   \<and> (sweep_deviceSupport (w0, 0, 0) = Inr st1 \<and> sweep_androidSdk st1 = Inr st2
        \<and> sweep_dotnetPacks st2 = Inr (w, totalSize, removedCount)
        \<and> platform w = ''darwin'' \<and> lookup (filesystem w) xmlPath = Some (File n)
        \<and> xml_parse w = Inl m \<longrightarrow>
      cleanAllExceptLatest w0
        = showErrorMessage w (''Error cleaning all except latest versions: '' @ m))
   \<and> (sweep_deviceSupport (w0, 0, 0) = Inr st1 \<and> sweep_androidSdk st1 = Inr st2
        \<and> sweep_dotnetPacks st2 = Inr (w, totalSize, removedCount)
        \<and> \<not> existsSync (filesystem w) xmlPath \<longrightarrow>
      cleanAllExceptLatest w0
        = showInformationMessage w
            (''Removed '' @ show_nat removedCount @ '' items, freeing '' @ formatBytes totalSize @
             ''. Kept only the latest versions.''))"
proof (intro conjI impI)
  assume "platform w = ''darwin'' \<and> \<not> existsSync (filesystem w) xmlPath"
  then show "cleanIosSimulatorRuntime pick confirm w
        = showErrorMessage w ''iOS Simulator Runtime XML file not found''"
    by (simp add: cleanIosSimulatorRuntime_absent)
next
  assume "platform w = ''darwin'' \<and> lookup (filesystem w) xmlPath = Some (File n)
        \<and> xml_parse w = Inl m"
  then show "cleanIosSimulatorRuntime pick confirm w
        = showErrorMessage w (''Error cleaning iOS Simulator Runtime: '' @ m)"
    using cleanIosSimulatorRuntime_unparsable by blast
next
  assume a: "sweep_deviceSupport (w0, 0, 0) = Inr st1 \<and> sweep_androidSdk st1 = Inr st2
        \<and> sweep_dotnetPacks st2 = Inr (w, totalSize, removedCount)
        \<and> platform w = ''darwin'' \<and> lookup (filesystem w) xmlPath = Some (File n)
        \<and> xml_parse w = Inl m"
  then have "sweep_simulatorRuntime (w, totalSize, removedCount) = Inl (ParseFailure m, w)"
    using sweep_simulatorRuntime_unparsable by blast
  with a show "cleanAllExceptLatest w0
        = showErrorMessage w (''Error cleaning all except latest versions: '' @ m)"
    by (simp add: cleanAllExceptLatest_def cleanAllExceptLatest_try_def)
next
  assume a: "sweep_deviceSupport (w0, 0, 0) = Inr st1 \<and> sweep_androidSdk st1 = Inr st2
        \<and> sweep_dotnetPacks st2 = Inr (w, totalSize, removedCount)
        \<and> \<not> existsSync (filesystem w) xmlPath"
  then have "sweep_simulatorRuntime (w, totalSize, removedCount)
      = Inr (w, totalSize, removedCount)"
    by (simp add: sweep_simulatorRuntime_absent)
  with a show "cleanAllExceptLatest w0
        = showInformationMessage w
            (''Removed '' @ show_nat removedCount @ '' items, freeing '' @ formatBytes totalSize @
             ''. Kept only the latest versions.'')"
    by (simp add: cleanAllExceptLatest_def cleanAllExceptLatest_try_def)
qed

lemma no_manifest_facts:
  "platform no_manifest = ''darwin''" "\<not> existsSync (filesystem no_manifest) xmlPath"
  "sweep_deviceSupport (no_manifest, 0, 0) = Inr (no_manifest, 0, 0)"
  "sweep_androidSdk (no_manifest, 0, 0) = Inr (no_manifest, 0, 0)"
  "sweep_dotnetPacks (no_manifest, 0, 0) = Inr (no_manifest, 0, 0)"
  by (simp_all add: no_manifest_def runtime_folder_def mac_def sweep_defs fs_defs)

lemma bad_manifest_facts:
  "platform bad_manifest = ''darwin''"
  "lookup (filesystem bad_manifest) xmlPath = Some (File 17)"
  "xml_parse bad_manifest = Inl ''Unexpected end''"
  "sweep_deviceSupport (bad_manifest, 0, 0) = Inr (bad_manifest, 0, 0)"
  "sweep_androidSdk (bad_manifest, 0, 0) = Inr (bad_manifest, 0, 0)"
  "sweep_dotnetPacks (bad_manifest, 0, 0) = Inr (bad_manifest, 0, 0)"
  by (simp_all add: bad_manifest_def runtime_folder_def mac_def sweep_defs fs_defs)

theorem manifest_unavailable_witness:
  "platform no_manifest = ''darwin'' \<and> \<not> existsSync (filesystem no_manifest) xmlPath
   \<and> sweep_dotnetPacks (no_manifest, 0, 0) = Inr (no_manifest, 0, 0)
   \<and> cleanIosSimulatorRuntime (\<lambda>items. Some items) (\<lambda>question. Some ''Yes'') no_manifest
       = showErrorMessage no_manifest ''iOS Simulator Runtime XML file not found''
   \<and> cleanAllExceptLatest no_manifest
       = showInformationMessage no_manifest
           (''Removed '' @ show_nat 0 @ '' items, freeing '' @ formatBytes 0 @
            ''. Kept only the latest versions.'')
   \<and> platform bad_manifest = ''darwin''
   \<and> lookup (filesystem bad_manifest) xmlPath = Some (File 17)
   \<and> xml_parse bad_manifest = Inl ''Unexpected end''
   \<and> sweep_dotnetPacks (bad_manifest, 0, 0) = Inr (bad_manifest, 0, 0)
   \<and> cleanIosSimulatorRuntime (\<lambda>items. Some items) (\<lambda>question. Some ''Yes'') bad_manifest
       = showErrorMessage bad_manifest (''Error cleaning iOS Simulator Runtime: '' @ ''Unexpected end'')
   \<and> cleanAllExceptLatest bad_manifest
       = showErrorMessage bad_manifest
           (''Error cleaning all except latest versions: '' @ ''Unexpected end'')"
  using manifest_unavailable
      [of no_manifest "\<lambda>items. Some items" "\<lambda>question. Some ''Yes''" 0 "''''" no_manifest
          "(no_manifest, 0, 0)" "(no_manifest, 0, 0)" 0 0]
    manifest_unavailable
      [of bad_manifest "\<lambda>items. Some items" "\<lambda>question. Some ''Yes''" 17 "''Unexpected end''"
          bad_manifest "(bad_manifest, 0, 0)" "(bad_manifest, 0, 0)" 0 0]
    no_manifest_facts bad_manifest_facts
  by simp

end
